theory Spec2Isabelle
  imports Main
begin

section \<open>The PostPage component (src/PostPage.jsx)\<close>

subsection \<open>Component state\<close>

text \<open>
  The component holds four string cells, one per \<^verbatim>\<open>useState("")\<close> hook
  (lines 7 to 10 of the source). Every value written to them is a JavaScript string:
  \<^verbatim>\<open>e.target.value\<close> of a text control, or the string a \<^verbatim>\<open>toPng\<close> promise
  delivers.
\<close>

record post_state =
  title :: string
  content :: string
  imageUrl :: string
  ogImageUrl :: string

definition PostPage_init :: post_state where
  "PostPage_init = \<lparr>title = [], content = [], imageUrl = [], ogImageUrl = []\<rparr>"

definition setTitle :: "string \<Rightarrow> post_state \<Rightarrow> post_state" where
  "setTitle v s = s\<lparr>title := v\<rparr>"

definition setContent :: "string \<Rightarrow> post_state \<Rightarrow> post_state" where
  "setContent v s = s\<lparr>content := v\<rparr>"

definition setImageUrl :: "string \<Rightarrow> post_state \<Rightarrow> post_state" where
  "setImageUrl v s = s\<lparr>imageUrl := v\<rparr>"

definition setOgImageUrl :: "string \<Rightarrow> post_state \<Rightarrow> post_state" where
  "setOgImageUrl v s = s\<lparr>ogImageUrl := v\<rparr>"

subsection \<open>The rendered tree\<close>

text \<open>
  A rendered node is a text child or an element with a tag, its string attributes and
  its children. Event handlers are not attributes here: they are the events of the
  transition system below.
\<close>

datatype node = Text string | Element string "(string \<times> string) list" "node list"

text \<open>
  The JSX child \<^verbatim>\<open>{s && <e/>}\<close> for a string \<^verbatim>\<open>s\<close>: JavaScript's \<^verbatim>\<open>&&\<close>
  yields its left operand when that is falsy, and the only falsy string is the empty
  one; otherwise it yields the element.
\<close>

definition jsx_and :: "string \<Rightarrow> node \<Rightarrow> node" where
  "jsx_and s e = (if s = [] then Text s else e)"

definition helmet_children :: "post_state \<Rightarrow> node list" where
  "helmet_children s =
     [jsx_and (ogImageUrl s)
        (Element ''meta'' [(''property'', ''og:image''), (''content'', ogImageUrl s)] [])]"

definition post_form :: "post_state \<Rightarrow> node" where
  "post_form s =
     Element ''div'' [(''className'', ''post-form'')]
       [Element ''input''
          [(''type'', ''text''), (''placeholder'', ''Title''), (''value'', title s)] [],
        Element ''textarea'' [(''placeholder'', ''Content''), (''value'', content s)] [],
        Element ''input''
          [(''type'', ''text''), (''placeholder'', ''Image URL''), (''value'', imageUrl s)] [],
        Element ''button'' [] [Text ''Generate OG Image'']]"

text \<open>The region \<^verbatim>\<open>postRef\<close> points to (lines 52 to 56).\<close>

definition post_preview :: "post_state \<Rightarrow> node" where
  "post_preview s =
     Element ''div'' [(''className'', ''post-preview'')]
       [Element ''h2'' [] [Text (title s)],
        Element ''p'' [] [Text (content s)],
        jsx_and (imageUrl s) (Element ''img'' [(''src'', imageUrl s), (''alt'', ''Post'')] [])]"

definition PostPage_render :: "post_state \<Rightarrow> node" where
  "PostPage_render s =
     Element ''HelmetProvider'' []
       [Element ''div'' [(''className'', ''post-page'')]
          [Element ''Helmet'' [] (helmet_children s),
           Element ''h1'' [(''className'', ''post-heading'')]
             [Text ''Assignment: Dynamic Post Page with OG Image Generation''],
           post_form s,
           post_preview s]]"

fun is_element :: "node \<Rightarrow> bool" where
  "is_element (Text t) = False"
| "is_element (Element tag attrs cs) = True"

fun node_children :: "node \<Rightarrow> node list" where
  "node_children (Text t) = []"
| "node_children (Element tag attrs cs) = cs"

fun og_image_content :: "node \<Rightarrow> string option" where
  "og_image_content (Text t) = None"
| "og_image_content (Element tag attrs cs) =
     (if tag = ''meta'' \<and> map_of attrs ''property'' = Some ''og:image''
      then map_of attrs ''content'' else None)"

text \<open>The content values of the og:image entries of a head, in order.\<close>

definition og_image_entries :: "node list \<Rightarrow> string list" where
  "og_image_entries hd_tags = List.map_filter og_image_content hd_tags"

text \<open>The elements with a given tag in a rendered subtree, the root included.\<close>

fun elements_named :: "string \<Rightarrow> node \<Rightarrow> node list" where
  "elements_named t (Text x) = []"
| "elements_named t (Element tag attrs cs) =
     (if tag = t then [Element tag attrs cs] else []) @ concat (map (elements_named t) cs)"

definition has_img :: "node \<Rightarrow> bool" where
  "has_img region = (elements_named ''img'' region \<noteq> [])"

text \<open>
  The head-metadata injector is an external collaborator (react-helmet-async). Its
  contract, as the program relies on it: at every render the tags declared by the
  mounted \<^verbatim>\<open>Helmet\<close> are exactly its element children of that render; a child that
  is not an element (the empty string left by \<^verbatim>\<open>&&\<close>) declares nothing. The head
  is recomputed from the current render, so a tag of an earlier render does not stay.
\<close>

definition document_head :: "post_state \<Rightarrow> node list" where
  "document_head s =
     filter is_element
       (concat (map node_children (elements_named ''Helmet'' (PostPage_render s))))"

subsection \<open>Promises and the capture handler\<close>

text \<open>
  \<^verbatim>\<open>toPng\<close> (html-to-image) is an external collaborator: given the region it returns
  a promise that later settles, fulfilled with a string or rejected with an error. What
  it delivers is a parameter of the model.
\<close>

type_synonym err = string

datatype 'a settled = Fulfilled 'a | Rejected err

text \<open>
  The string of a fulfilled \<^verbatim>\<open>toPng\<close> promise is a data URI (the interface
  \<^verbatim>\<open>capture(regionHandle) -> Promise<ImageDataURI>\<close>; the library returns
  \<^verbatim>\<open>canvas.toDataURL()\<close>): a string that starts with the scheme \<^verbatim>\<open>data:\<close>.
\<close>

definition is_data_uri :: "string \<Rightarrow> bool" where
  "is_data_uri d = (take 5 d = ''data:'')"

text \<open>
  \<^verbatim>\<open>p.then(f)\<close> runs \<^verbatim>\<open>f\<close> on the value of a fulfilled promise and passes a
  rejection on; \<^verbatim>\<open>p.catch(g)\<close> runs \<^verbatim>\<open>g\<close> on the error of a rejected promise and
  is then fulfilled. The callbacks of this program act on the state and throw nothing.
\<close>

definition promise_then ::
  "('a \<Rightarrow> 'w \<Rightarrow> 'w) \<Rightarrow> 'a settled \<times> 'w \<Rightarrow> unit settled \<times> 'w" where
  "promise_then f p =
     (case p of (Fulfilled v, w) \<Rightarrow> (Fulfilled (), f v w) | (Rejected e, w) \<Rightarrow> (Rejected e, w))"

definition promise_catch ::
  "(err \<Rightarrow> 'w \<Rightarrow> 'w) \<Rightarrow> unit settled \<times> 'w \<Rightarrow> unit settled \<times> 'w" where
  "promise_catch g p =
     (case p of (Fulfilled v, w) \<Rightarrow> (Fulfilled v, w) | (Rejected e, w) \<Rightarrow> (Fulfilled (), g e w))"

text \<open>
  What the handler can touch: the component state, the console (the lines written by
  \<^verbatim>\<open>console.error\<close>, each a message and the error) and the calls made to
  \<^verbatim>\<open>toPng\<close> (the region each call was given).
\<close>

record world =
  page :: post_state
  console_error :: "(string \<times> err) list"
  toPng_calls :: "node list"

definition init_world :: world where
  "init_world = \<lparr>page = PostPage_init, console_error = [], toPng_calls = []\<rparr>"

text \<open>
  \<^verbatim>\<open>handleGenerateOgImage\<close> (lines 13 to 21) in two parts. The call itself hands the
  region currently rendered under \<^verbatim>\<open>postRef\<close> to \<^verbatim>\<open>toPng\<close> and returns. When
  the promise settles, the chain \<^verbatim>\<open>.then(...).catch(...)\<close> runs.
\<close>

definition handleGenerateOgImage :: "world \<Rightarrow> world" where
  "handleGenerateOgImage w = w\<lparr>toPng_calls := toPng_calls w @ [post_preview (page w)]\<rparr>"

definition handleGenerateOgImage_settled :: "string settled \<Rightarrow> world \<Rightarrow> unit settled \<times> world" where
  "handleGenerateOgImage_settled r w =
     promise_catch
       (\<lambda>err w. w\<lparr>console_error := console_error w @ [(''Error generating image:'', err)]\<rparr>)
       (promise_then (\<lambda>dataUrl w. w\<lparr>page := setOgImageUrl dataUrl (page w)\<rparr>) (r, w))"

subsection \<open>Events\<close>

text \<open>
  The events of the page: an edit of one of the three controls, a click on the button,
  and the settling of a pending \<^verbatim>\<open>toPng\<close> promise. A promise chain that ends
  rejected is an unhandled rejection.
\<close>

datatype event =
    ChangeTitle string
  | ChangeContent string
  | ChangeImageUrl string
  | ClickGenerate
  | ToPngSettled "string settled"

datatype failure = UnhandledRejection err

fun step :: "world \<Rightarrow> event \<Rightarrow> failure + world" where
  "step w (ChangeTitle v) = Inr (w\<lparr>page := setTitle v (page w)\<rparr>)"
| "step w (ChangeContent v) = Inr (w\<lparr>page := setContent v (page w)\<rparr>)"
| "step w (ChangeImageUrl v) = Inr (w\<lparr>page := setImageUrl v (page w)\<rparr>)"
| "step w ClickGenerate = Inr (handleGenerateOgImage w)"
| "step w (ToPngSettled r) =
     (case handleGenerateOgImage_settled r w of
        (Fulfilled u, w') \<Rightarrow> Inr w'
      | (Rejected e, w') \<Rightarrow> Inl (UnhandledRejection e))"

fun run :: "world \<Rightarrow> event list \<Rightarrow> failure + world" where
  "run w [] = Inr w"
| "run w (e # es) = (case step w e of Inl c \<Rightarrow> Inl c | Inr w' \<Rightarrow> run w' es)"

text \<open>The strings delivered by the fulfilled captures of a trace, in order.\<close>

fun deliveries :: "event list \<Rightarrow> string list" where
  "deliveries [] = []"
| "deliveries (ToPngSettled (Fulfilled d) # es) = d # deliveries es"
| "deliveries (e # es) = deliveries es"

section \<open>Properties\<close>

subsection \<open>Helper facts\<close>

lemma document_head_eq: "document_head s = filter is_element (helmet_children s)"
  by (simp add: document_head_def PostPage_render_def post_form_def post_preview_def
      helmet_children_def jsx_and_def)

lemma og_image_entries_head:
  "og_image_entries (document_head s) = (if ogImageUrl s = [] then [] else [ogImageUrl s])"
  by (simp add: document_head_eq helmet_children_def jsx_and_def og_image_entries_def)

lemma has_img_preview: "has_img (post_preview s) = (imageUrl s \<noteq> [])"
  by (simp add: has_img_def post_preview_def jsx_and_def)

lemma settled_Fulfilled:
  "handleGenerateOgImage_settled (Fulfilled d) w =
     (Fulfilled (), w\<lparr>page := (page w)\<lparr>ogImageUrl := d\<rparr>\<rparr>)"
  by (simp add: handleGenerateOgImage_settled_def promise_then_def promise_catch_def
      setOgImageUrl_def)

lemma settled_Rejected:
  "handleGenerateOgImage_settled (Rejected e) w =
     (Fulfilled (), w\<lparr>console_error := console_error w @ [(''Error generating image:'', e)]\<rparr>)"
  by (simp add: handleGenerateOgImage_settled_def promise_then_def promise_catch_def)

lemma step_total: "\<exists>w'. step w e = Inr w'"
proof (cases e)
  case (ToPngSettled r)
  then show ?thesis
    by (cases r) (simp_all add: settled_Fulfilled settled_Rejected)
qed simp_all

lemma step_ogImageUrl:
  "step w e = Inr w' \<Longrightarrow> ogImageUrl (page w') = last (ogImageUrl (page w) # deliveries [e])"
proof (cases e)
  case (ToPngSettled r)
  assume "step w e = Inr w'"
  with ToPngSettled show ?thesis
    by (cases r) (auto simp: settled_Fulfilled settled_Rejected)
qed (auto simp: setTitle_def setContent_def setImageUrl_def handleGenerateOgImage_def)

lemma deliveries_Cons: "deliveries (e # es) = deliveries [e] @ deliveries es"
proof (cases e)
  case (ToPngSettled r)
  then show ?thesis by (cases r) simp_all
qed simp_all

lemma deliveries_append: "deliveries (xs @ ys) = deliveries xs @ deliveries ys"
proof (induction xs)
  case Nil
  show ?case by simp
next
  case (Cons x xs)
  have "deliveries ((x # xs) @ ys) = deliveries [x] @ deliveries (xs @ ys)"
    using deliveries_Cons [of x "xs @ ys"] by simp
  also have "\<dots> = deliveries [x] @ deliveries xs @ deliveries ys"
    by (simp add: Cons.IH)
  also have "\<dots> = deliveries (x # xs) @ deliveries ys"
    using deliveries_Cons [of x xs] by simp
  finally show ?case .
qed

lemma last_prefix: "last (last (a # xs) # ys) = last (a # xs @ ys)"
  by (cases ys) simp_all

lemma run_ogImageUrl:
  "\<exists>w'. run w es = Inr w' \<and> ogImageUrl (page w') = last (ogImageUrl (page w) # deliveries es)"
proof (induction es arbitrary: w)
  case Nil
  show ?case by simp
next
  case (Cons e es)
  obtain w1 where w1: "step w e = Inr w1"
    using step_total by blast
  from Cons.IH [of w1] obtain w' where
    w': "run w1 es = Inr w'"
      "ogImageUrl (page w') = last (ogImageUrl (page w1) # deliveries es)"
    by blast
  have "ogImageUrl (page w') = last (last (ogImageUrl (page w) # deliveries [e]) # deliveries es)"
    using w'(2) step_ogImageUrl [OF w1] by simp
  also have "\<dots> = last (ogImageUrl (page w) # deliveries [e] @ deliveries es)"
    by (rule last_prefix)
  also have "\<dots> = last (ogImageUrl (page w) # deliveries (e # es))"
    using deliveries_Cons [of e es] by simp
  finally show ?case
    using w1 w'(1) by simp
qed

lemma is_data_uri_nonempty: "is_data_uri d \<Longrightarrow> d \<noteq> []"
  by (auto simp: is_data_uri_def)

lemma run_append:
  "run w (xs @ ys) = (case run w xs of Inl c \<Rightarrow> Inl c | Inr w1 \<Rightarrow> run w1 ys)"
  by (induction xs arbitrary: w) (auto split: sum.splits)

lemma last_data_uri:
  "list_all is_data_uri ds \<Longrightarrow> (last (a # ds) \<noteq> []) = (a \<noteq> [] \<or> ds \<noteq> [])"
proof (cases "ds = []")
  case True
  then show ?thesis by simp
next
  case False
  assume "list_all is_data_uri ds"
  moreover from False have "last (a # ds) \<in> set ds" by simp
  ultimately have "is_data_uri (last (a # ds))"
    by (simp add: list_all_iff)
  with False show ?thesis
    using is_data_uri_nonempty by blast
qed

text \<open>
  C8. On mount the three editable fields are the empty string and the generated image
  reference is absent: it is the empty string, and the head holds no og:image entry.
\<close>

theorem mount_state_empty:
  "title PostPage_init = [] \<and> content PostPage_init = [] \<and> imageUrl PostPage_init = []
   \<and> ogImageUrl PostPage_init = [] \<and> page init_world = PostPage_init
   \<and> og_image_entries (document_head (page init_world)) = []"
  by (simp add: og_image_entries_head) (simp add: PostPage_init_def init_world_def)

text \<open>
  C1. When the promise of a capture is rejected, the generated image reference keeps
  its value, whatever it was; the whole component state is the one before, no call to
  \<^verbatim>\<open>toPng\<close> is made, and the console receives exactly one error line, the message
  \<^verbatim>\<open>Error generating image:\<close> with the error.
\<close>

theorem failed_capture_logs_only:
  "\<exists>w'. step w (ToPngSettled (Rejected e)) = Inr w'
     \<and> ogImageUrl (page w') = ogImageUrl (page w)
     \<and> page w' = page w
     \<and> toPng_calls w' = toPng_calls w
     \<and> console_error w' = console_error w @ [(''Error generating image:'', e)]"
  by (simp add: settled_Rejected)

theorem failed_capture_logs_only_witness:
  "step \<lparr>page = \<lparr>title = ''Hello'', content = ''World'', imageUrl = ''http://x/a.png'',
                   ogImageUrl = ''data:image/png;base64,iVBORw0KGgo=''\<rparr>,
          console_error = [], toPng_calls = []\<rparr>
        (ToPngSettled (Rejected ''SecurityError''))
   = Inr \<lparr>page = \<lparr>title = ''Hello'', content = ''World'', imageUrl = ''http://x/a.png'',
                    ogImageUrl = ''data:image/png;base64,iVBORw0KGgo=''\<rparr>,
           console_error = [(''Error generating image:'', ''SecurityError'')],
           toPng_calls = []\<rparr>"
  using failed_capture_logs_only
    [of "\<lparr>page = \<lparr>title = ''Hello'', content = ''World'', imageUrl = ''http://x/a.png'',
                   ogImageUrl = ''data:image/png;base64,iVBORw0KGgo=''\<rparr>,
          console_error = [], toPng_calls = []\<rparr>" "''SecurityError''"]
  by auto

text \<open>
  C2. When the promise of a capture is fulfilled with a data URI \<open>d\<close>, the generated
  image reference becomes \<open>d\<close>, whatever it was before; \<open>d\<close> is non-empty, and so
  the reference is non-empty after every successful capture.
\<close>

theorem successful_capture_stores_data_uri:
  "\<exists>w'. step w (ToPngSettled (Fulfilled d)) = Inr w'
     \<and> ogImageUrl (page w') = d
     \<and> (is_data_uri d \<longrightarrow> d \<noteq> [] \<and> ogImageUrl (page w') \<noteq> [])"
  using is_data_uri_nonempty [of d] by (auto simp: settled_Fulfilled)

theorem successful_capture_stores_data_uri_witness:
  "is_data_uri ''data:image/png;base64,BBBB''
   \<and> step \<lparr>page = \<lparr>title = ''Hello'', content = ''World'', imageUrl = [],
                     ogImageUrl = ''data:image/png;base64,AAAA''\<rparr>,
            console_error = [], toPng_calls = []\<rparr>
          (ToPngSettled (Fulfilled ''data:image/png;base64,BBBB''))
     = Inr \<lparr>page = \<lparr>title = ''Hello'', content = ''World'', imageUrl = [],
                      ogImageUrl = ''data:image/png;base64,BBBB''\<rparr>,
             console_error = [], toPng_calls = []\<rparr>
   \<and> ''data:image/png;base64,BBBB'' \<noteq> []"
  using successful_capture_stores_data_uri
    [of "\<lparr>page = \<lparr>title = ''Hello'', content = ''World'', imageUrl = [],
                   ogImageUrl = ''data:image/png;base64,AAAA''\<rparr>,
          console_error = [], toPng_calls = []\<rparr>" "''data:image/png;base64,BBBB''"]
  by (auto simp: settled_Fulfilled is_data_uri_def)

text \<open>
  C3. In every rendered state the head holds an og:image entry if and only if the
  generated image reference is non-empty; it holds at most one, and its content is the
  current reference.
\<close>

theorem og_meta_iff_ogImageUrl:
  "og_image_entries (document_head s) = (if ogImageUrl s = [] then [] else [ogImageUrl s])
   \<and> (og_image_entries (document_head s) \<noteq> []) = (ogImageUrl s \<noteq> [])
   \<and> length (og_image_entries (document_head s)) \<le> 1"
  by (simp add: og_image_entries_head)

theorem og_meta_iff_ogImageUrl_witness:
  "og_image_entries (document_head \<lparr>title = ''Hello'', content = ''World'', imageUrl = [],
      ogImageUrl = ''data:image/png;base64,AAAA''\<rparr>) = [''data:image/png;base64,AAAA'']
   \<and> og_image_entries (document_head PostPage_init) = []"
  using og_meta_iff_ogImageUrl [of "\<lparr>title = ''Hello'', content = ''World'', imageUrl = [],
      ogImageUrl = ''data:image/png;base64,AAAA''\<rparr>"]
    og_meta_iff_ogImageUrl [of PostPage_init]
  by (simp add: PostPage_init_def)

text \<open>
  C4. Over every sequence of events the generated image reference changes only when a
  capture is fulfilled: an event that changes it is the fulfilment of a capture, its
  value after the sequence is the last string delivered (the starting value when none
  was), and so edits, clicks and rejected captures leave it as it is. Its lifecycle is
  absent, present, replaced: at every point of the sequence, when the captures fulfilled
  from there on deliver data URIs, a reference that is present stays present, and the
  reference is present at the end exactly when it was present at that point or a capture
  was fulfilled since.
\<close>

theorem ogImageUrl_lifecycle:
  "(step a e = Inr b \<and> ogImageUrl (page b) \<noteq> ogImageUrl (page a)
      \<longrightarrow> (\<exists>d. e = ToPngSettled (Fulfilled d)))
   \<and> (\<exists>w1 w'. run w xs = Inr w1 \<and> run w1 ys = Inr w' \<and> run w (xs @ ys) = Inr w'
        \<and> ogImageUrl (page w') = last (ogImageUrl (page w) # deliveries (xs @ ys))
        \<and> (deliveries (xs @ ys) = [] \<longrightarrow> ogImageUrl (page w') = ogImageUrl (page w))
        \<and> (list_all is_data_uri (deliveries ys)
             \<longrightarrow> (ogImageUrl (page w1) \<noteq> [] \<longrightarrow> ogImageUrl (page w') \<noteq> [])
                 \<and> (ogImageUrl (page w') \<noteq> [])
                     = (ogImageUrl (page w1) \<noteq> [] \<or> deliveries ys \<noteq> [])))"
proof -
  have one: "step a e = Inr b \<and> ogImageUrl (page b) \<noteq> ogImageUrl (page a)
      \<longrightarrow> (\<exists>d. e = ToPngSettled (Fulfilled d))"
  proof (cases e)
    case (ToPngSettled r)
    then show ?thesis
      by (cases r) (auto simp: settled_Rejected)
  qed (auto simp: setTitle_def setContent_def setImageUrl_def handleGenerateOgImage_def)
  obtain w1 where w1: "run w xs = Inr w1"
    using run_ogImageUrl by blast
  obtain w' where w': "run w1 ys = Inr w'"
      "ogImageUrl (page w') = last (ogImageUrl (page w1) # deliveries ys)"
    using run_ogImageUrl by blast
  have whole: "run w (xs @ ys) = Inr w'"
    using w1 w'(1) by (simp add: run_append)
  obtain w2 where w2: "run w (xs @ ys) = Inr w2"
      "ogImageUrl (page w2) = last (ogImageUrl (page w) # deliveries (xs @ ys))"
    using run_ogImageUrl by blast
  from whole w2(1) have "w2 = w'" by simp
  with w2(2) have final:
    "ogImageUrl (page w') = last (ogImageUrl (page w) # deliveries (xs @ ys))"
    by simp
  have none: "deliveries (xs @ ys) = [] \<longrightarrow> ogImageUrl (page w') = ogImageUrl (page w)"
    using final by simp
  have keep: "list_all is_data_uri (deliveries ys)
      \<longrightarrow> (ogImageUrl (page w1) \<noteq> [] \<longrightarrow> ogImageUrl (page w') \<noteq> [])
          \<and> (ogImageUrl (page w') \<noteq> []) = (ogImageUrl (page w1) \<noteq> [] \<or> deliveries ys \<noteq> [])"
    using last_data_uri [of "deliveries ys" "ogImageUrl (page w1)"] w'(2) by auto
  from one w1 w'(1) whole final none keep show ?thesis by blast
qed

theorem ogImageUrl_lifecycle_witness:
  "list_all is_data_uri
     (deliveries [ChangeImageUrl ''http://x/a.png'', ClickGenerate,
        ToPngSettled (Rejected ''SecurityError''), ClickGenerate,
        ToPngSettled (Fulfilled ''data:image/png;base64,BBBB'')])
   \<and> run init_world
       [ChangeTitle ''Hello'', ClickGenerate, ToPngSettled (Rejected ''SecurityError''),
        ClickGenerate, ToPngSettled (Fulfilled ''data:image/png;base64,AAAA'')]
     = Inr \<lparr>page = \<lparr>title = ''Hello'', content = [], imageUrl = [],
                      ogImageUrl = ''data:image/png;base64,AAAA''\<rparr>,
             console_error = [(''Error generating image:'', ''SecurityError'')],
             toPng_calls =
               [post_preview \<lparr>title = ''Hello'', content = [], imageUrl = [],
                  ogImageUrl = []\<rparr>,
                post_preview \<lparr>title = ''Hello'', content = [], imageUrl = [],
                  ogImageUrl = []\<rparr>]\<rparr>
   \<and> (\<exists>w'. run init_world
          ([ChangeTitle ''Hello'', ClickGenerate, ToPngSettled (Rejected ''SecurityError''),
            ClickGenerate, ToPngSettled (Fulfilled ''data:image/png;base64,AAAA'')]
           @ [ChangeImageUrl ''http://x/a.png'', ClickGenerate,
              ToPngSettled (Rejected ''SecurityError''), ClickGenerate,
              ToPngSettled (Fulfilled ''data:image/png;base64,BBBB'')]) = Inr w'
        \<and> ogImageUrl (page w') = ''data:image/png;base64,BBBB'')"
proof -
  let ?xs = "[ChangeTitle ''Hello'', ClickGenerate, ToPngSettled (Rejected ''SecurityError''),
      ClickGenerate, ToPngSettled (Fulfilled ''data:image/png;base64,AAAA'')]"
  let ?ys = "[ChangeImageUrl ''http://x/a.png'', ClickGenerate,
      ToPngSettled (Rejected ''SecurityError''), ClickGenerate,
      ToPngSettled (Fulfilled ''data:image/png;base64,BBBB'')]"
  have uris: "list_all is_data_uri (deliveries ?ys)"
    by (simp add: is_data_uri_def)
  have first: "run init_world ?xs
     = Inr \<lparr>page = \<lparr>title = ''Hello'', content = [], imageUrl = [],
                      ogImageUrl = ''data:image/png;base64,AAAA''\<rparr>,
             console_error = [(''Error generating image:'', ''SecurityError'')],
             toPng_calls =
               [post_preview \<lparr>title = ''Hello'', content = [], imageUrl = [],
                  ogImageUrl = []\<rparr>,
                post_preview \<lparr>title = ''Hello'', content = [], imageUrl = [],
                  ogImageUrl = []\<rparr>]\<rparr>"
    by (simp add: settled_Fulfilled settled_Rejected init_world_def PostPage_init_def
        setTitle_def handleGenerateOgImage_def)
  have dl: "last (ogImageUrl (page init_world) # deliveries (?xs @ ?ys))
      = ''data:image/png;base64,BBBB''"
    by (simp add: deliveries_append)
  from ogImageUrl_lifecycle [THEN conjunct2, of init_world ?xs ?ys]
  obtain w' where w': "run init_world (?xs @ ?ys) = Inr w'"
      "ogImageUrl (page w') = last (ogImageUrl (page init_world) # deliveries (?xs @ ?ys))"
    by blast
  from w'(2) dl have "ogImageUrl (page w') = ''data:image/png;base64,BBBB''"
    by (rule trans)
  with w'(1) have "\<exists>w'. run init_world (?xs @ ?ys) = Inr w'
      \<and> ogImageUrl (page w') = ''data:image/png;base64,BBBB''"
    by blast
  with uris first show ?thesis by blast
qed

text \<open>
  C5. In every rendered state the preview region holds an image element if and only if
  the image URL is non-empty. A click on the button hands the region as rendered then to
  \<^verbatim>\<open>toPng\<close>; when the image URL is the empty string that region holds no image
  element.
\<close>

theorem preview_img_iff_imageUrl:
  "has_img (post_preview s) = (imageUrl s \<noteq> [])
   \<and> (imageUrl (page w) = []
        \<longrightarrow> (\<exists>w'. step w ClickGenerate = Inr w'
               \<and> toPng_calls w' = toPng_calls w @ [post_preview (page w)]
               \<and> \<not> has_img (last (toPng_calls w'))))"
  by (simp add: has_img_preview handleGenerateOgImage_def)

theorem preview_img_iff_imageUrl_witness:
  "has_img (post_preview \<lparr>title = ''Hello'', content = ''World'',
      imageUrl = ''http://x/a.png'', ogImageUrl = []\<rparr>)
   \<and> imageUrl (page init_world) = []
   \<and> (\<exists>w'. step init_world ClickGenerate = Inr w'
        \<and> toPng_calls w' = [post_preview PostPage_init]
        \<and> \<not> has_img (last (toPng_calls w')))"
  using preview_img_iff_imageUrl
    [of "\<lparr>title = ''Hello'', content = ''World'', imageUrl = ''http://x/a.png'',
          ogImageUrl = []\<rparr>" init_world]
  by (simp add: init_world_def PostPage_init_def handleGenerateOgImage_def)

text \<open>
  C6. Captures whose completions overlap are settlements that arrive in some order among
  the other events of the page. No sequence of events ends in an unhandled rejection,
  and after a fulfilled capture that no later fulfilled capture follows, the generated
  image reference is the string that capture delivered.
\<close>

theorem last_completion_wins:
  "(\<exists>w'. run w es = Inr w')
   \<and> (\<exists>w'. run w (before @ ToPngSettled (Fulfilled d) # after) = Inr w'
        \<and> (deliveries after = [] \<longrightarrow> ogImageUrl (page w') = d))"
proof -
  have total: "\<exists>w'. run w es = Inr w'"
    using run_ogImageUrl [of w es] by blast
  obtain w' where w': "run w (before @ ToPngSettled (Fulfilled d) # after) = Inr w'"
      "ogImageUrl (page w')
         = last (ogImageUrl (page w) # deliveries (before @ ToPngSettled (Fulfilled d) # after))"
    using run_ogImageUrl by blast
  have "deliveries after = [] \<longrightarrow> ogImageUrl (page w') = d"
    using w'(2) by (simp add: deliveries_append)
  with total w'(1) show ?thesis by blast
qed

theorem last_completion_wins_witness:
  "run init_world
     [ClickGenerate, ChangeTitle ''Hello'', ClickGenerate,
      ToPngSettled (Fulfilled ''data:image/png;base64,SECOND''),
      ToPngSettled (Fulfilled ''data:image/png;base64,FIRST'')]
   = Inr \<lparr>page = \<lparr>title = ''Hello'', content = [], imageUrl = [],
                    ogImageUrl = ''data:image/png;base64,FIRST''\<rparr>,
           console_error = [],
           toPng_calls =
             [post_preview PostPage_init,
              post_preview \<lparr>title = ''Hello'', content = [], imageUrl = [],
                ogImageUrl = []\<rparr>]\<rparr>"
  using last_completion_wins
    [of init_world "[]"
        "[ClickGenerate, ChangeTitle ''Hello'', ClickGenerate,
          ToPngSettled (Fulfilled ''data:image/png;base64,SECOND'')]"
        "''data:image/png;base64,FIRST''" "[]"]
  by (simp add: settled_Fulfilled init_world_def PostPage_init_def setTitle_def
      handleGenerateOgImage_def)

text \<open>
  C7. An edit of the title, the content or the image URL replaces that field with the
  value of the event at once and changes nothing else: the other two editable fields,
  the generated image reference, the console and the calls to \<^verbatim>\<open>toPng\<close> are as
  before.
\<close>

theorem edit_replaces_one_field:
  "(\<exists>w'. step w (ChangeTitle v) = Inr w'
        \<and> title (page w') = v \<and> content (page w') = content (page w)
        \<and> imageUrl (page w') = imageUrl (page w)
        \<and> ogImageUrl (page w') = ogImageUrl (page w)
        \<and> console_error w' = console_error w \<and> toPng_calls w' = toPng_calls w)
   \<and> (\<exists>w'. step w (ChangeContent v) = Inr w'
        \<and> content (page w') = v \<and> title (page w') = title (page w)
        \<and> imageUrl (page w') = imageUrl (page w)
        \<and> ogImageUrl (page w') = ogImageUrl (page w)
        \<and> console_error w' = console_error w \<and> toPng_calls w' = toPng_calls w)
   \<and> (\<exists>w'. step w (ChangeImageUrl v) = Inr w'
        \<and> imageUrl (page w') = v \<and> title (page w') = title (page w)
        \<and> content (page w') = content (page w)
        \<and> ogImageUrl (page w') = ogImageUrl (page w)
        \<and> console_error w' = console_error w \<and> toPng_calls w' = toPng_calls w)"
  by (simp add: setTitle_def setContent_def setImageUrl_def)

theorem edit_replaces_one_field_witness:
  "step \<lparr>page = \<lparr>title = ''a'', content = ''b'', imageUrl = ''c'', ogImageUrl = ''data:,''\<rparr>,
          console_error = [], toPng_calls = []\<rparr> (ChangeContent ''World'')
   = Inr \<lparr>page = \<lparr>title = ''a'', content = ''World'', imageUrl = ''c'',
                    ogImageUrl = ''data:,''\<rparr>,
           console_error = [], toPng_calls = []\<rparr>"
  using edit_replaces_one_field
    [of "\<lparr>page = \<lparr>title = ''a'', content = ''b'', imageUrl = ''c'', ogImageUrl = ''data:,''\<rparr>,
          console_error = [], toPng_calls = []\<rparr>" "''World''"]
  by (simp add: setContent_def)

text \<open>
  C9. A capture leaves the title, the content and the image URL as they are, at the click
  and when its promise settles, fulfilled or rejected: the component state afterwards is
  the one before with at most the generated image reference replaced.
\<close>

theorem capture_keeps_editable_fields:
  "(\<exists>w'. step w ClickGenerate = Inr w' \<and> page w' = page w)
   \<and> (\<exists>w'. step w (ToPngSettled r) = Inr w'
        \<and> title (page w') = title (page w)
        \<and> content (page w') = content (page w)
        \<and> imageUrl (page w') = imageUrl (page w)
        \<and> page w' = (page w)\<lparr>ogImageUrl := ogImageUrl (page w')\<rparr>)"
  by (cases r) (simp_all add: settled_Fulfilled settled_Rejected handleGenerateOgImage_def)

theorem capture_keeps_editable_fields_witness:
  "run \<lparr>page = \<lparr>title = ''a'', content = ''b'', imageUrl = ''c'', ogImageUrl = []\<rparr>,
         console_error = [], toPng_calls = []\<rparr>
       [ToPngSettled (Fulfilled ''data:image/png;base64,AAAA'')]
   = Inr \<lparr>page = \<lparr>title = ''a'', content = ''b'', imageUrl = ''c'',
                    ogImageUrl = ''data:image/png;base64,AAAA''\<rparr>,
           console_error = [], toPng_calls = []\<rparr>"
  using capture_keeps_editable_fields
    [of "\<lparr>page = \<lparr>title = ''a'', content = ''b'', imageUrl = ''c'', ogImageUrl = []\<rparr>,
         console_error = [], toPng_calls = []\<rparr>"
        "Fulfilled ''data:image/png;base64,AAAA''"]
  by (simp add: settled_Fulfilled)

text \<open>
  C10. An absent generated image reference is the empty string: that is its value at
  mount, the og:image entry is in the head exactly when the reference is non-empty, and
  the preview holds an image element exactly when the image URL is non-empty. When a
  capture is fulfilled with the empty string, the reference becomes the empty string and
  the head holds no og:image entry; the component state, and so the render and the head,
  are those of the same page with the reference at its mount value.
\<close>

theorem empty_delivery_is_absent:
  "ogImageUrl PostPage_init = []
   \<and> (og_image_entries (document_head s) = []) = (ogImageUrl s = [])
   \<and> has_img (post_preview s) = (imageUrl s \<noteq> [])
   \<and> (\<exists>w'. step w (ToPngSettled (Fulfilled [])) = Inr w'
        \<and> ogImageUrl (page w') = []
        \<and> og_image_entries (document_head (page w')) = []
        \<and> page w' = (page w)\<lparr>ogImageUrl := ogImageUrl PostPage_init\<rparr>
        \<and> PostPage_render (page w')
            = PostPage_render ((page w)\<lparr>ogImageUrl := ogImageUrl PostPage_init\<rparr>)
        \<and> document_head (page w')
            = document_head ((page w)\<lparr>ogImageUrl := ogImageUrl PostPage_init\<rparr>))"
  by (simp add: og_image_entries_head has_img_preview settled_Fulfilled)
    (simp add: PostPage_init_def)

theorem empty_delivery_is_absent_witness:
  "step \<lparr>page = \<lparr>title = ''a'', content = ''b'', imageUrl = ''c'',
                   ogImageUrl = ''data:image/png;base64,AAAA''\<rparr>,
          console_error = [], toPng_calls = []\<rparr> (ToPngSettled (Fulfilled []))
   = Inr \<lparr>page = \<lparr>title = ''a'', content = ''b'', imageUrl = ''c'', ogImageUrl = []\<rparr>,
           console_error = [], toPng_calls = []\<rparr>
   \<and> og_image_entries (document_head
        \<lparr>title = ''a'', content = ''b'', imageUrl = ''c'', ogImageUrl = []\<rparr>) = []"
proof -
  have "(og_image_entries (document_head
           \<lparr>title = ''a'', content = ''b'', imageUrl = ''c'', ogImageUrl = []\<rparr>) = [])
        = (ogImageUrl \<lparr>title = ''a'', content = ''b'', imageUrl = ''c'', ogImageUrl = []\<rparr> = [])"
    by (rule empty_delivery_is_absent [THEN conjunct2, THEN conjunct1])
  then have "og_image_entries (document_head
        \<lparr>title = ''a'', content = ''b'', imageUrl = ''c'', ogImageUrl = []\<rparr>) = []"
    by simp
  then show ?thesis
    by (simp add: settled_Fulfilled)
qed

end
